theory Spec2Isabelle
  imports Complex_Main "HOL-Library.Multiset" "HOL-Library.Sublist"
begin

section \<open>JavaScript strings\<close>

text \<open>
  A JavaScript string is modelled as a \<open>string\<close>: a list of characters whose codes
  range over 0..255 (the Latin-1 part of UTF-16). The regular-expression classes
  used by the sources are written out on those codes: \<open>\w\<close> is \<open>[A-Za-z0-9_]\<close>
  (the patterns carry no \<open>u\<close> flag), \<open>\s\<close> and \<open>trim()\<close> share the white-space
  set (tab, line feed, vertical tab, form feed, carriage return, space, no-break
  space), \<open>\d\<close> is \<open>[0-9]\<close>.
\<close>

definition toLowerChar :: "char \<Rightarrow> char" where
  "toLowerChar c =
     (let n = (of_char c :: nat)
      in if (65 \<le> n \<and> n \<le> 90) \<or> (192 \<le> n \<and> n \<le> 222 \<and> n \<noteq> 215)
         then char_of (n + 32) else c)"

definition toLowerCase :: "string \<Rightarrow> string" where
  "toLowerCase s = map toLowerChar s"

definition isWordChar :: "char \<Rightarrow> bool" where
  "isWordChar c =
     (let n = (of_char c :: nat)
      in (97 \<le> n \<and> n \<le> 122) \<or> (65 \<le> n \<and> n \<le> 90) \<or> (48 \<le> n \<and> n \<le> 57) \<or> n = 95)"

definition isSpace :: "char \<Rightarrow> bool" where
  "isSpace c =
     (let n = (of_char c :: nat)
      in (9 \<le> n \<and> n \<le> 13) \<or> n = 32 \<or> n = 160)"

definition isDigit :: "char \<Rightarrow> bool" where
  "isDigit c = (let n = (of_char c :: nat) in 48 \<le> n \<and> n \<le> 57)"

definition isHyphen :: "char \<Rightarrow> bool" where
  "isHyphen c = (c = CHR ''-'')"

text \<open>\<open>s.replace(/p+/g, '-')\<close>: every maximal run of characters of class \<open>p\<close>
  becomes one hyphen.\<close>

function replaceRuns :: "(char \<Rightarrow> bool) \<Rightarrow> string \<Rightarrow> string" where
  "replaceRuns p [] = []"
| "replaceRuns p (c # cs) =
     (if p c then CHR ''-'' # replaceRuns p (dropWhile p cs)
      else c # replaceRuns p cs)"
  by pat_completeness auto
termination
  by (relation "measure (\<lambda>(p, s). length s)")
     (auto simp: less_Suc_eq_le length_dropWhile_le)

text \<open>\<open>s.trim()\<close> removes white space, and only white space, at both ends.\<close>

definition trim :: "string \<Rightarrow> string" where
  "trim s = rev (dropWhile isSpace (rev (dropWhile isSpace s)))"

text \<open>\<open>s.includes(t)\<close>: \<open>t\<close> occurs in \<open>s\<close> as a contiguous substring.\<close>

fun startsWith :: "string \<Rightarrow> string \<Rightarrow> bool" where
  "startsWith s [] = True"
| "startsWith [] (d # ds) = False"
| "startsWith (c # cs) (d # ds) = (c = d \<and> startsWith cs ds)"

fun includesStr :: "string \<Rightarrow> string \<Rightarrow> bool" where
  "includesStr [] t = (t = [])"
| "includesStr (c # cs) t = (startsWith (c # cs) t \<or> includesStr cs t)"

text \<open>\<open>s.split(',')\<close>: the pieces between the separators; never the empty list.\<close>

fun split :: "char \<Rightarrow> string \<Rightarrow> string list" where
  "split sep [] = [[]]"
| "split sep (c # cs) =
     (if c = sep then [] # split sep cs
      else (case split sep cs of
              [] \<Rightarrow> [[c]]
            | w # ws \<Rightarrow> (c # w) # ws))"

section \<open>Slug codec (utils/slugify.ts)\<close>

definition createSlug :: "string \<Rightarrow> string" where
  "createSlug title =
     trim
       (replaceRuns isHyphen
          (replaceRuns isSpace
             (filter (\<lambda>c. isWordChar c \<or> isSpace c \<or> isHyphen c)
                (toLowerCase title))))"

definition decodeSlug :: "string \<Rightarrow> string" where
  "decodeSlug slug = toLowerCase (map (\<lambda>c. if c = CHR ''-'' then CHR '' '' else c) slug)"

section \<open>Catalog entries (components/MovieCard.tsx)\<close>

text \<open>
  A numeric field of an entry, as the running program sees it after JSON decoding:
  the key is missing (\<open>undefined\<close>), its value is \<open>null\<close> (what JSON holds in
  place of a number that was \<open>NaN\<close> or not there), or it is a number. Numbers are
  rationals. \<open>NaN\<close> is not a decoded value; it only arises as the result of
  arithmetic, see \<open>toNumber\<close>.
\<close>

datatype jsnum = Undefined | Null | Num rat

text \<open>
  An entry. \<open>id\<close> is the field \<open>movieId\<close> here. The interface declares \<open>id\<close>,
  \<open>year\<close>, \<open>genre\<close>, \<open>rating\<close> and \<open>description\<close> as required, but nothing checks
  the decoded records, so every field except the title may be missing. For the
  text and list fields \<open>None\<close> stands for \<open>undefined\<close> and for \<open>null\<close>, which the
  pipeline treats alike (both falsy, both raise on a method call).
\<close>

record Movie =
  movieId :: jsnum
  title :: string
  year :: jsnum
  genre :: "string option"
  rating :: jsnum
  description :: "string option"
  imdbRating :: jsnum
  runtime :: "string option"
  userRating :: jsnum
  tags :: "string list option"
  communityRating :: jsnum

datatype error = TypeError

text \<open>\<open>ToNumber\<close>, applied by the comparison and subtraction operators:
  \<open>undefined\<close> becomes \<open>NaN\<close> (\<open>None\<close>), \<open>null\<close> becomes 0.\<close>

definition toNumber :: "jsnum \<Rightarrow> rat option" where
  "toNumber v = (case v of Undefined \<Rightarrow> None | Null \<Rightarrow> Some 0 | Num r \<Rightarrow> Some r)"

text \<open>\<open>a || b\<close>: \<open>undefined\<close>, \<open>null\<close> and \<open>0\<close> are falsy.\<close>

definition truthyNum :: "jsnum \<Rightarrow> bool" where
  "truthyNum v = (case v of Undefined \<Rightarrow> False | Null \<Rightarrow> False | Num r \<Rightarrow> r \<noteq> 0)"

definition jsOr :: "jsnum \<Rightarrow> jsnum \<Rightarrow> jsnum" where
  "jsOr a b = (if truthyNum a then a else b)"

text \<open>\<open>a >= b\<close> and \<open>a <= b\<close> against a number: false when \<open>a\<close> converts to
  \<open>NaN\<close>.\<close>

definition jsGe :: "jsnum \<Rightarrow> rat \<Rightarrow> bool" where
  "jsGe a b = (case toNumber a of None \<Rightarrow> False | Some v \<Rightarrow> b \<le> v)"

definition jsLe :: "jsnum \<Rightarrow> rat \<Rightarrow> bool" where
  "jsLe a b = (case toNumber a of None \<Rightarrow> False | Some v \<Rightarrow> v \<le> b)"

text \<open>\<open>a - b\<close>: \<open>NaN\<close> as soon as one operand converts to \<open>NaN\<close>.\<close>

definition jsSub :: "jsnum \<Rightarrow> jsnum \<Rightarrow> rat option" where
  "jsSub a b =
     (case toNumber a of None \<Rightarrow> None
      | Some x \<Rightarrow> (case toNumber b of None \<Rightarrow> None | Some y \<Rightarrow> Some (x - y)))"

section \<open>Application state (App.tsx)\<close>

datatype SortOption =
  DateAdded | DateAddedLatest | Title | Year | ImdbRating | UserRating | CommunityRating

record AppState =
  selectedGenres :: "string list"
  selectedYears :: "jsnum list"
  searchQuery :: string
  currentPage :: int
  sortBy :: SortOption
  imdbRatingRange :: "rat \<times> rat"
  runtimeFilter :: string
  selectedTags :: "string list"

definition initialState :: "SortOption \<Rightarrow> AppState" where
  "initialState s =
     \<lparr> selectedGenres = [], selectedYears = [], searchQuery = [], currentPage = 1,
       sortBy = s, imdbRatingRange = (0, 10), runtimeFilter = ''all'',
       selectedTags = [] \<rparr>"

definition handleGenreChange :: "string \<Rightarrow> bool \<Rightarrow> AppState \<Rightarrow> AppState" where
  "handleGenreChange g checked st =
     (if checked then st\<lparr>selectedGenres := selectedGenres st @ [g], currentPage := 1\<rparr>
      else st\<lparr>selectedGenres := filter (\<lambda>x. x \<noteq> g) (selectedGenres st),
                currentPage := 1\<rparr>)"

definition handleClearGenres :: "AppState \<Rightarrow> AppState" where
  "handleClearGenres st = st\<lparr>selectedGenres := [], currentPage := 1\<rparr>"

definition handleYearChange :: "jsnum \<Rightarrow> bool \<Rightarrow> AppState \<Rightarrow> AppState" where
  "handleYearChange y checked st =
     (if checked then st\<lparr>selectedYears := selectedYears st @ [y], currentPage := 1\<rparr>
      else st\<lparr>selectedYears := filter (\<lambda>x. x \<noteq> y) (selectedYears st),
                currentPage := 1\<rparr>)"

definition handleTagChange :: "string \<Rightarrow> bool \<Rightarrow> AppState \<Rightarrow> AppState" where
  "handleTagChange t checked st =
     (if checked then st\<lparr>selectedTags := selectedTags st @ [t], currentPage := 1\<rparr>
      else st\<lparr>selectedTags := filter (\<lambda>x. x \<noteq> t) (selectedTags st),
                currentPage := 1\<rparr>)"

text \<open>The search box: \<open>onChange\<close> stores the text and goes back to page 1.\<close>

definition onSearchChange :: "string \<Rightarrow> AppState \<Rightarrow> AppState" where
  "onSearchChange q st = st\<lparr>searchQuery := q, currentPage := 1\<rparr>"

text \<open>The sidebar receives the bare state setters for the rating range and the
  runtime bucket, and the sort dropdown the bare setter of the sort key.\<close>

definition onImdbRatingChange :: "rat \<times> rat \<Rightarrow> AppState \<Rightarrow> AppState" where
  "onImdbRatingChange r st = st\<lparr>imdbRatingRange := r\<rparr>"

definition onRuntimeChange :: "string \<Rightarrow> AppState \<Rightarrow> AppState" where
  "onRuntimeChange f st = st\<lparr>runtimeFilter := f\<rparr>"

definition setSortBy :: "SortOption \<Rightarrow> AppState \<Rightarrow> AppState" where
  "setSortBy k st = st\<lparr>sortBy := k\<rparr>"

section \<open>Filter stage (App.tsx, filteredMovies)\<close>

text \<open>\<open>parseInt\<close> on a run of decimal digits.\<close>

definition digitVal :: "char \<Rightarrow> nat" where
  "digitVal c = (of_char c :: nat) - 48"

definition parseInt :: "string \<Rightarrow> nat" where
  "parseInt ds = foldl (\<lambda>n c. 10 * n + digitVal c) 0 ds"

text \<open>\<open>parseRuntime\<close>: the first run of digits of the text, 0 when the text is
  missing, empty or holds no digit.\<close>

definition parseRuntime :: "string option \<Rightarrow> nat" where
  "parseRuntime rt =
     (case rt of None \<Rightarrow> 0
      | Some r \<Rightarrow>
          if r = [] then 0
          else (let ds = takeWhile isDigit (dropWhile (\<lambda>c. \<not> isDigit c) r)
                in if ds = [] then 0 else parseInt ds))"

text \<open>\<open>runtime.match(/(\d+)\s+Season/)\<close>: the leftmost position where a run of
  digits, a run of white space and the word \<open>Season\<close> follow one another; the
  result is the parsed digit group. A greedy run must be maximal here, since the
  character after it has to belong to the next class.\<close>

definition seasonMatchAt :: "string \<Rightarrow> nat option" where
  "seasonMatchAt s =
     (let ds = takeWhile isDigit s; r1 = dropWhile isDigit s;
          ws = takeWhile isSpace r1; r2 = dropWhile isSpace r1
      in if ds \<noteq> [] \<and> ws \<noteq> [] \<and> startsWith r2 ''Season''
         then Some (parseInt ds) else None)"

fun seasonMatch :: "string \<Rightarrow> nat option" where
  "seasonMatch [] = None"
| "seasonMatch (c # cs) =
     (case seasonMatchAt (c # cs) of
        Some n \<Rightarrow> Some n
      | None \<Rightarrow> seasonMatch cs)"

definition isSeason :: "Movie \<Rightarrow> bool" where
  "isSeason movie =
     (case runtime movie of None \<Rightarrow> False
      | Some r \<Rightarrow> r \<noteq> [] \<and> includesStr (toLowerCase r) ''season'')"

definition runtimeMatch :: "string \<Rightarrow> Movie \<Rightarrow> bool" where
  "runtimeMatch rf movie =
     (if rf \<noteq> ''all'' then
        (let runtimeMinutes = parseRuntime (runtime movie)
         in if rf = ''short'' then
              \<not> isSeason movie \<and> 0 < runtimeMinutes \<and> runtimeMinutes \<le> 90
            else if rf = ''medium'' then
              \<not> isSeason movie \<and> 90 < runtimeMinutes \<and> runtimeMinutes \<le> 150
            else if rf = ''long'' then
              \<not> isSeason movie \<and> 150 < runtimeMinutes
            else if rf = ''oneSeason'' then
              isSeason movie \<and>
              (case runtime movie of None \<Rightarrow> False
               | Some r \<Rightarrow> includesStr r ''1 Season'' \<or> r = ''1 Seasons'')
            else if rf = ''multiSeason'' then
              isSeason movie \<and>
              (case runtime movie of None \<Rightarrow> False
               | Some r \<Rightarrow> (case seasonMatch r of None \<Rightarrow> False | Some n \<Rightarrow> 1 < n))
            else True)
      else True)"

definition movieGenres :: "Movie \<Rightarrow> string list" where
  "movieGenres movie =
     (case genre movie of None \<Rightarrow> []
      | Some g \<Rightarrow> if g = [] then [] else map trim (split CHR '','' g))"

definition genreMatch :: "string list \<Rightarrow> Movie \<Rightarrow> bool" where
  "genreMatch sel movie =
     (sel = [] \<or> list_ex (\<lambda>g. g \<in> set (movieGenres movie)) sel)"

definition yearMatch :: "jsnum list \<Rightarrow> Movie \<Rightarrow> bool" where
  "yearMatch sel movie = (sel = [] \<or> year movie \<in> set sel)"

text \<open>\<open>movie.description.toLowerCase()\<close> is reached only when the query is not
  empty and the title does not contain it; it raises a TypeError on a missing
  description.\<close>

definition searchMatch :: "string \<Rightarrow> Movie \<Rightarrow> error + bool" where
  "searchMatch q movie =
     (if q = [] then Inr True
      else if includesStr (toLowerCase (title movie)) (toLowerCase q) then Inr True
      else (case description movie of
              None \<Rightarrow> Inl TypeError
            | Some d \<Rightarrow> Inr (includesStr (toLowerCase d) (toLowerCase q))))"

definition effectiveRating :: "Movie \<Rightarrow> jsnum" where
  "effectiveRating movie = jsOr (imdbRating movie) (rating movie)"

definition ratingMatch :: "rat \<times> rat \<Rightarrow> Movie \<Rightarrow> bool" where
  "ratingMatch rng movie =
     (jsGe (effectiveRating movie) (fst rng) \<and> jsLe (effectiveRating movie) (snd rng))"

definition tagMatch :: "string list \<Rightarrow> Movie \<Rightarrow> bool" where
  "tagMatch sel movie =
     (sel = [] \<or>
      (case tags movie of None \<Rightarrow> False
       | Some ts \<Rightarrow> list_ex (\<lambda>tag. tag \<in> set ts) sel))"

definition passesFilter :: "AppState \<Rightarrow> Movie \<Rightarrow> error + bool" where
  "passesFilter st movie =
     (case searchMatch (searchQuery st) movie of
        Inl e \<Rightarrow> Inl e
      | Inr s \<Rightarrow>
          Inr (genreMatch (selectedGenres st) movie \<and> yearMatch (selectedYears st) movie \<and> s \<and>
               ratingMatch (imdbRatingRange st) movie \<and>
               runtimeMatch (runtimeFilter st) movie \<and> tagMatch (selectedTags st) movie))"

text \<open>\<open>Array.prototype.filter\<close> with a callback that may raise: the first
  exception ends the whole call.\<close>

fun filterE :: "('a \<Rightarrow> error + bool) \<Rightarrow> 'a list \<Rightarrow> error + 'a list" where
  "filterE p [] = Inr []"
| "filterE p (x # xs) =
     (case p x of
        Inl e \<Rightarrow> Inl e
      | Inr b \<Rightarrow>
          (case filterE p xs of
             Inl e \<Rightarrow> Inl e
           | Inr ys \<Rightarrow> Inr (if b then x # ys else ys)))"

definition filteredMovies :: "AppState \<Rightarrow> Movie list \<Rightarrow> error + Movie list" where
  "filteredMovies st movies = filterE (passesFilter st) movies"

section \<open>Sort stage (App.tsx, sortedMovies)\<close>

text \<open>
  The comparator of \<open>sortedMovies\<close>, one case per sort key. Its result is a number
  or \<open>NaN\<close> (\<open>None\<close>). \<open>localeCompare\<close> depends on the host's locale and is a
  parameter.
\<close>

definition compareMovies ::
  "(string \<Rightarrow> string \<Rightarrow> int) \<Rightarrow> SortOption \<Rightarrow> Movie \<Rightarrow> Movie \<Rightarrow> rat option" where
  "compareMovies localeCompare k a b =
     (case k of
        DateAdded \<Rightarrow> jsSub (movieId b) (movieId a)
      | DateAddedLatest \<Rightarrow> jsSub (movieId a) (movieId b)
      | Title \<Rightarrow> Some (of_int (localeCompare (title a) (title b)))
      | Year \<Rightarrow> jsSub (year b) (year a)
      | ImdbRating \<Rightarrow> jsSub (effectiveRating b) (effectiveRating a)
      | UserRating \<Rightarrow> jsSub (jsOr (userRating b) (Num 0)) (jsOr (userRating a) (Num 0))
      | CommunityRating \<Rightarrow>
          jsSub (jsOr (communityRating b) (Num 0)) (jsOr (communityRating a) (Num 0)))"

text \<open>
  \<open>Array.prototype.sort(cmp)\<close> is stable, reads only the sign of \<open>cmp\<close>, and takes
  \<open>NaN\<close> for \<open>+0\<close>. It is modelled by the stable insertion sort: \<open>x\<close> moves behind
  \<open>y\<close> exactly when \<open>cmp x y\<close> is positive. For a comparator that is a total
  preorder every stable sort returns this list.
\<close>

definition jsPositive :: "rat option \<Rightarrow> bool" where
  "jsPositive v = (case v of None \<Rightarrow> False | Some x \<Rightarrow> 0 < x)"

fun insertBy :: "('a \<Rightarrow> 'a \<Rightarrow> rat option) \<Rightarrow> 'a \<Rightarrow> 'a list \<Rightarrow> 'a list" where
  "insertBy cmp x [] = [x]"
| "insertBy cmp x (y # ys) =
     (if jsPositive (cmp x y) then y # insertBy cmp x ys else x # y # ys)"

definition jsSort :: "('a \<Rightarrow> 'a \<Rightarrow> rat option) \<Rightarrow> 'a list \<Rightarrow> 'a list" where
  "jsSort cmp xs = foldr (insertBy cmp) xs []"

definition sortedMovies ::
  "(string \<Rightarrow> string \<Rightarrow> int) \<Rightarrow> SortOption \<Rightarrow> Movie list \<Rightarrow> Movie list" where
  "sortedMovies localeCompare k fs = jsSort (compareMovies localeCompare k) fs"

text \<open>
  The effective value of an entry under a numeric key, as the specification
  words it: the effective rating is \<open>imdbRating\<close> if present, else \<open>rating\<close>, and
  a missing numeric value sorts as 0. \<open>Title\<close> is not a numeric key.
\<close>

definition numValue :: "jsnum \<Rightarrow> rat" where
  "numValue v = (case v of Undefined \<Rightarrow> 0 | Null \<Rightarrow> 0 | Num r \<Rightarrow> r)"

definition documentedValue :: "SortOption \<Rightarrow> Movie \<Rightarrow> rat" where
  "documentedValue k m =
     (case k of
        DateAdded \<Rightarrow> numValue (movieId m)
      | DateAddedLatest \<Rightarrow> numValue (movieId m)
      | Title \<Rightarrow> 0
      | Year \<Rightarrow> numValue (year m)
      | ImdbRating \<Rightarrow>
          (case imdbRating m of
             Num r \<Rightarrow> r
           | Undefined \<Rightarrow> numValue (rating m)
           | Null \<Rightarrow> numValue (rating m))
      | UserRating \<Rightarrow> numValue (userRating m)
      | CommunityRating \<Rightarrow> numValue (communityRating m))"

text \<open>
  The same with one change: an \<open>imdbRating\<close> of 0 counts as missing and gives way to
  \<open>rating\<close>, as a missing one does. Zero is what the application stores for
  \<open>imdbRating\<close> when the metadata service knows no rating.
\<close>

definition sortValue :: "SortOption \<Rightarrow> Movie \<Rightarrow> rat" where
  "sortValue k m =
     (case k of
        DateAdded \<Rightarrow> numValue (movieId m)
      | DateAddedLatest \<Rightarrow> numValue (movieId m)
      | Title \<Rightarrow> 0
      | Year \<Rightarrow> numValue (year m)
      | ImdbRating \<Rightarrow>
          (case imdbRating m of
             Num r \<Rightarrow> if r = 0 then numValue (rating m) else r
           | Undefined \<Rightarrow> numValue (rating m)
           | Null \<Rightarrow> numValue (rating m))
      | UserRating \<Rightarrow> numValue (userRating m)
      | CommunityRating \<Rightarrow> numValue (communityRating m))"

section \<open>Detail page (MovieDetailPage, loadMovieData)\<close>

definition matchesSlug :: "string \<Rightarrow> Movie \<Rightarrow> bool" where
  "matchesSlug titleSlug m =
     (createSlug (title m) = titleSlug \<or> toLowerCase (title m) = decodeSlug titleSlug)"

text \<open>\<open>Array.prototype.find\<close>: the first element of the list that satisfies the
  predicate, \<open>undefined\<close> (\<open>None\<close>) when there is none.\<close>

definition foundMovie :: "string \<Rightarrow> Movie list \<Rightarrow> Movie option" where
  "foundMovie titleSlug allMoviesData = find (matchesSlug titleSlug) allMoviesData"

text \<open>The link of a card: \<open>navigate(`/movie/${createSlug(movie.title)}`)\<close>.\<close>

definition movieLink :: "Movie \<Rightarrow> string" where
  "movieLink movie = ''/movie/'' @ createSlug (title movie)"

text \<open>
  Recommended entries. \<open>firstGenre\<close> is the first comma-separated piece of the
  found entry's genre, trimmed and lower-cased. The shuffle
  \<open>filtered.sort(() => Math.random() - 0.5)\<close> rearranges the matches in an order
  that depends on the random numbers drawn; it is the parameter \<open>shuffle\<close>.
\<close>

definition firstGenre :: "string \<Rightarrow> string" where
  "firstGenre g =
     (case split CHR '','' g of
        [] \<Rightarrow> []
      | t # ts \<Rightarrow> toLowerCase (trim t))"

definition sharesGenre :: "string \<Rightarrow> Movie \<Rightarrow> bool" where
  "sharesGenre fg m =
     (case genre m of None \<Rightarrow> False
      | Some g \<Rightarrow> g \<noteq> [] \<and> list_ex (\<lambda>t. toLowerCase (trim t) = fg) (split CHR '','' g))"

definition similarMovies ::
  "(Movie list \<Rightarrow> Movie list) \<Rightarrow> Movie \<Rightarrow> Movie list \<Rightarrow> Movie list" where
  "similarMovies shuffle found allMoviesData =
     (case genre found of
        None \<Rightarrow> []
      | Some g \<Rightarrow>
          if g = [] then []
          else take 5
                 (shuffle
                    (filter (\<lambda>m. movieId m \<noteq> movieId found \<and> sharesGenre (firstGenre g) m)
                       allMoviesData)))"

text \<open>
  The state of one \<open>MovieDetailPage\<close> instance, as far as the choice of view
  goes. The route \<open>/movie/:title\<close> keeps the same instance while the slug changes,
  and an effect calls \<open>loadMovieData\<close> for every new slug. \<open>loadMovieData\<close> sets
  \<open>isLoading\<close>, fetches both lists, stores the entry found, if any, and clears
  \<open>isLoading\<close>; when fetching fails (\<open>None\<close>) the \<open>catch\<close> branch only clears
  \<open>isLoading\<close>. The page shows the spinner while loading, "Movie not found"
  while \<open>movie\<close> is \<open>null\<close>, and the entry otherwise.
\<close>

record DetailPageState =
  movie :: "Movie option"
  isLoading :: bool

definition initialPage :: DetailPageState where
  "initialPage = \<lparr> movie = None, isLoading = True \<rparr>"

definition loadMovieData :: "string \<Rightarrow> Movie list option \<Rightarrow> DetailPageState \<Rightarrow> DetailPageState" where
  "loadMovieData titleSlug fetched pg =
     (case fetched of
        None \<Rightarrow> pg\<lparr>isLoading := False\<rparr>
      | Some allMoviesData \<Rightarrow>
          (case foundMovie titleSlug allMoviesData of
             None \<Rightarrow> pg\<lparr>isLoading := False\<rparr>
           | Some m \<Rightarrow> pg\<lparr>movie := Some m, isLoading := False\<rparr>))"

datatype DetailView = Loading | MovieNotFound | MovieDetail Movie

definition renderDetail :: "DetailPageState \<Rightarrow> DetailView" where
  "renderDetail pg =
     (if isLoading pg then Loading
      else (case movie pg of None \<Rightarrow> MovieNotFound | Some m \<Rightarrow> MovieDetail m))"

section \<open>User accounts (supabase/functions/server/index.tsx)\<close>

record User =
  userId :: string
  username :: string
  email :: string
  password :: string
  profilePicture :: "string option"
  createdAt :: int

text \<open>
  Modelled from the spec: the key-value store module \<open>kv_store.tsx\<close> imported by the
  server is not among the sources. The specification gives its interface:
  \<open>get(key) -> value | null\<close>, \<open>set(key, value) -> void\<close>, \<open>del(key) -> void\<close>,
  a string-keyed object store with last-write-wins per key. \<open>set\<close> stores the
  value as it is at the time of the call.
\<close>

type_synonym KvStore = "string \<rightharpoonup> User"

definition kvGet :: "KvStore \<Rightarrow> string \<Rightarrow> User option" where
  "kvGet kv key = kv key"

definition kvSet :: "KvStore \<Rightarrow> string \<Rightarrow> User \<Rightarrow> KvStore" where
  "kvSet kv key v = kv(key \<mapsto> v)"

definition kvDel :: "KvStore \<Rightarrow> string \<Rightarrow> KvStore" where
  "kvDel kv key = kv(key := None)"

text \<open>A field of a request body is missing (\<open>None\<close>) or a string; \<open>!field\<close> holds
  for a missing and for an empty one.\<close>

definition truthy :: "string option \<Rightarrow> bool" where
  "truthy f = (case f of None \<Rightarrow> False | Some s \<Rightarrow> s \<noteq> [])"

definition strOf :: "string option \<Rightarrow> string" where
  "strOf f = (case f of None \<Rightarrow> [] | Some s \<Rightarrow> s)"

text \<open>
  Each handler maps the request and the store to the HTTP status of the reply and
  the store it leaves. \<open>aborted\<close> is \<open>c.req.raw.signal.aborted\<close>, read after the
  writes. The fresh identifier and the clock of \<open>signup\<close> are parameters.
\<close>

definition signup ::
  "string \<Rightarrow> int \<Rightarrow> string option \<Rightarrow> string option \<Rightarrow> string option \<Rightarrow> bool \<Rightarrow> KvStore
     \<Rightarrow> nat \<times> KvStore" where
  "signup newId now un em pw aborted kv =
     (if \<not> truthy un \<or> \<not> truthy em \<or> \<not> truthy pw then (400, kv)
      else if kvGet kv (''user:username:'' @ toLowerCase (strOf un)) \<noteq> None then (400, kv)
      else if kvGet kv (''user:email:'' @ toLowerCase (strOf em)) \<noteq> None then (400, kv)
      else
        (let user = \<lparr> userId = newId, username = strOf un,
                       email = toLowerCase (strOf em), password = strOf pw,
                       profilePicture = None, createdAt = now \<rparr>;
             kv1 = kvSet kv (''user:id:'' @ newId) user;
             kv2 = kvSet kv1 (''user:username:'' @ toLowerCase (strOf un)) user;
             kv3 = kvSet kv2 (''user:email:'' @ toLowerCase (strOf em)) user
         in (if aborted then 499 else 200, kv3)))"

record ProfileRequest =
  reqUserId :: "string option"
  reqEmail :: "string option"
  reqPassword :: "string option"
  reqProfilePicture :: "string option"

definition updateProfile :: "ProfileRequest \<Rightarrow> bool \<Rightarrow> KvStore \<Rightarrow> nat \<times> KvStore" where
  "updateProfile req aborted kv =
     (if \<not> truthy (reqUserId req) then (400, kv)
      else
        (case kvGet kv (''user:id:'' @ strOf (reqUserId req)) of
           None \<Rightarrow> (404, kv)
         | Some user \<Rightarrow>
             (let emailChanged = (truthy (reqEmail req) \<and> strOf (reqEmail req) \<noteq> email user);
                  emailLower = toLowerCase (strOf (reqEmail req));
                  existing = kvGet kv (''user:email:'' @ emailLower)
              in if emailChanged \<and>
                    (case existing of None \<Rightarrow> False
                     | Some other \<Rightarrow> userId other \<noteq> strOf (reqUserId req))
                 then (400, kv)
                 else
                   (let u1 = (if emailChanged then user\<lparr>email := emailLower\<rparr> else user);
                        kv1 = (if emailChanged
                               then kvSet (kvDel kv (''user:email:'' @ toLowerCase (email user)))
                                      (''user:email:'' @ emailLower) u1
                               else kv);
                        u2 = (if truthy (reqPassword req) \<and> trim (strOf (reqPassword req)) \<noteq> []
                              then u1\<lparr>password := strOf (reqPassword req)\<rparr> else u1);
                        u3 = (case reqProfilePicture req of
                                None \<Rightarrow> u2
                              | Some pic \<Rightarrow> u2\<lparr>profilePicture := Some pic\<rparr>);
                        kv2 = kvSet kv1 (''user:id:'' @ strOf (reqUserId req)) u3;
                        kv3 = kvSet kv2 (''user:username:'' @ toLowerCase (username user)) u3;
                        kv4 = (if \<not> truthy (reqEmail req) \<or> strOf (reqEmail req) = email user
                               then kvSet kv3 (''user:email:'' @ toLowerCase (email user)) u3
                               else kv3)
                    in (if aborted then 499 else 200, kv4)))))"

definition resetPassword ::
  "string option \<Rightarrow> string option \<Rightarrow> bool \<Rightarrow> KvStore \<Rightarrow> nat \<times> KvStore" where
  "resetPassword em newPassword aborted kv =
     (if \<not> truthy em \<or> \<not> truthy newPassword then (400, kv)
      else
        (case kvGet kv (''user:email:'' @ toLowerCase (strOf em)) of
           None \<Rightarrow> (404, kv)
         | Some user \<Rightarrow>
             (let updatedUser = user\<lparr>password := strOf newPassword\<rparr>;
                  kv1 = kvSet kv (''user:id:'' @ userId user) updatedUser;
                  kv2 = kvSet kv1 (''user:username:'' @ toLowerCase (username user)) updatedUser;
                  kv3 = kvSet kv2 (''user:email:'' @ toLowerCase (email user)) updatedUser
              in (if aborted then 499 else 200, kv3))))"

section \<open>Example data\<close>

text \<open>The two entries of the specification's filter-and-sort scenario, and
  variants of the second one: without rating keys, with \<open>null\<close> ratings, with the
  ratings the application stores when the metadata service knows none
  (\<open>imdbRating\<close> 0, \<open>rating\<close> 7), with a \<open>rating\<close> only, without year, and without
  description.\<close>

definition se7en :: Movie where
  "se7en =
     \<lparr> movieId = Num 5, title = ''Se7en'', year = Num 1995, genre = Some ''Crime, Drama'',
       rating = Num (86 / 10), description = Some ''Two detectives hunt a killer'',
       imdbRating = Num (86 / 10), runtime = Some ''127 min'', userRating = Undefined,
       tags = None, communityRating = Undefined \<rparr>"

definition theRoom :: Movie where
  "theRoom =
     \<lparr> movieId = Num 7, title = ''The Room'', year = Num 2003, genre = Some ''Drama'',
       rating = Num (37 / 10), description = Some ''A banker and his fiancee'',
       imdbRating = Num (37 / 10), runtime = Some ''99 min'', userRating = Undefined,
       tags = None, communityRating = Undefined \<rparr>"

definition unrated :: Movie where
  "unrated = theRoom\<lparr>movieId := Num 8, imdbRating := Undefined, rating := Undefined\<rparr>"

definition undescribed :: Movie where
  "undescribed = theRoom\<lparr>movieId := Num 9, description := None\<rparr>"

definition nullRated :: Movie where
  "nullRated = theRoom\<lparr>movieId := Num 10, imdbRating := Null, rating := Null\<rparr>"

definition zeroImdb :: Movie where
  "zeroImdb = theRoom\<lparr>movieId := Num 11, imdbRating := Num 0, rating := Num 7\<rparr>"

definition ratingOnly :: Movie where
  "ratingOnly = theRoom\<lparr>movieId := Num 12, imdbRating := Undefined, rating := Num 9\<rparr>"

definition yearless :: Movie where
  "yearless = theRoom\<lparr>movieId := Num 13, year := Undefined\<rparr>"

definition ann :: User where
  "ann =
     \<lparr> userId = ''u1'', username = ''Ann'', email = ''ann@a.io'', password = ''old'',
       profilePicture = None, createdAt = 0 \<rparr>"

definition annStore :: KvStore where
  "annStore =
     [''user:id:u1'' \<mapsto> ann, ''user:username:ann'' \<mapsto> ann, ''user:email:ann@a.io'' \<mapsto> ann]"

definition annRequest :: ProfileRequest where
  "annRequest =
     \<lparr> reqUserId = Some ''u1'', reqEmail = Some ''ann@b.io'', reqPassword = Some ''new'',
       reqProfilePicture = None \<rparr>"

section \<open>Properties of the slug codec\<close>

text \<open>
  Claim C2: for every title the slug holds only lower-case word characters and
  single hyphens, with no hyphen at either end. \<open>createSlug\<close> calls \<open>trim()\<close>
  last, when every white-space run has already become a hyphen, so nothing is
  left to trim: a title with a space (or a hyphen) at an end keeps a hyphen there.
\<close>

theorem createSlug_edge_hyphen:
  "createSlug ''Alien '' = ''alien-'' \<and> createSlug '' Alien'' = ''-alien'' \<and>
   createSlug ''-30-'' = ''-30-''"
  by code_simp

text \<open>
  Claim C10: a non-empty title made only of characters that the encoder strips,
  such as \<open>???\<close>, is encoded as the empty string, and the link of its card is
  \<open>/movie/\<close> with no slug segment. \<open>createSlug\<close> is a total function: every step
  of it is defined on every string.
\<close>

theorem createSlug_empty_slug:
  "''???'' \<noteq> [] \<and>
   list_all (\<lambda>c. \<not> (isWordChar c \<or> isSpace c \<or> isHyphen c)) (toLowerCase ''???'') \<and>
   createSlug ''???'' = [] \<and> movieLink (m\<lparr>title := ''???''\<rparr>) = ''/movie/''"
proof -
  have a: "createSlug ''???'' = []"
    by code_simp
  have b: "list_all (\<lambda>c. \<not> (isWordChar c \<or> isSpace c \<or> isHyphen c)) (toLowerCase ''???'')"
    by code_simp
  show ?thesis using a b by (simp add: movieLink_def)
qed

section \<open>Properties of slug resolution\<close>

lemma find_first_match:
  "find P xs = Some x \<longleftrightarrow>
     (\<exists>pre post. xs = pre @ x # post \<and> P x \<and> list_all (\<lambda>y. \<not> P y) pre)"
proof (induction xs)
  case Nil
  then show ?case by simp
next
  case (Cons a xs)
  show ?case
  proof (cases "P a")
    case True
    have "(\<exists>pre post. a # xs = pre @ x # post \<and> P x \<and> list_all (\<lambda>y. \<not> P y) pre) \<longleftrightarrow> a = x"
    proof
      assume "\<exists>pre post. a # xs = pre @ x # post \<and> P x \<and> list_all (\<lambda>y. \<not> P y) pre"
      then obtain pre post where h: "a # xs = pre @ x # post" "list_all (\<lambda>y. \<not> P y) pre" by blast
      show "a = x"
      proof (cases pre)
        case Nil then show ?thesis using h by simp
      next
        case (Cons b bs) then show ?thesis using h True by simp
      qed
    next
      assume "a = x"
      then have "a # xs = [] @ x # xs \<and> P x \<and> list_all (\<lambda>y. \<not> P y) []" using True by simp
      then show "\<exists>pre post. a # xs = pre @ x # post \<and> P x \<and> list_all (\<lambda>y. \<not> P y) pre" by blast
    qed
    then show ?thesis using True by simp
  next
    case False
    have "(\<exists>pre post. a # xs = pre @ x # post \<and> P x \<and> list_all (\<lambda>y. \<not> P y) pre) \<longleftrightarrow>
          (\<exists>pre post. xs = pre @ x # post \<and> P x \<and> list_all (\<lambda>y. \<not> P y) pre)"
    proof
      assume "\<exists>pre post. a # xs = pre @ x # post \<and> P x \<and> list_all (\<lambda>y. \<not> P y) pre"
      then obtain pre post where h: "a # xs = pre @ x # post" "P x" "list_all (\<lambda>y. \<not> P y) pre" by blast
      show "\<exists>pre post. xs = pre @ x # post \<and> P x \<and> list_all (\<lambda>y. \<not> P y) pre"
      proof (cases pre)
        case Nil then show ?thesis using h False by simp
      next
        case (Cons b bs)
        then have "xs = bs @ x # post \<and> P x \<and> list_all (\<lambda>y. \<not> P y) bs" using h by simp
        then show ?thesis by blast
      qed
    next
      assume "\<exists>pre post. xs = pre @ x # post \<and> P x \<and> list_all (\<lambda>y. \<not> P y) pre"
      then obtain pre post where h: "xs = pre @ x # post" "P x" "list_all (\<lambda>y. \<not> P y) pre" by blast
      then have "a # xs = (a # pre) @ x # post \<and> P x \<and> list_all (\<lambda>y. \<not> P y) (a # pre)"
        using False by simp
      then show "\<exists>pre post. a # xs = pre @ x # post \<and> P x \<and> list_all (\<lambda>y. \<not> P y) pre" by blast
    qed
    then show ?thesis using False Cons.IH by simp
  qed
qed

lemma find_no_match: "find P xs = None \<longleftrightarrow> list_all (\<lambda>y. \<not> P y) xs"
  by (induction xs) auto

text \<open>
  Claim C7: slug resolution returns the first entry, in list order, whose encoded
  title equals the requested slug or whose lower-cased title equals the decoded
  slug, and an absent result when no entry does; the detail page then shows its
  "not found" state. Resolution does so, and a page instance that has shown no
  entry yet renders "Movie not found" on a miss. But \<open>loadMovieData\<close> leaves the
  \<open>movie\<close> state alone on a miss: an instance that already shows Se7en and is
  sent to the slug of an entry that is gone keeps showing Se7en.
\<close>

theorem loadMovieData_keeps_previous_movie:
  "(foundMovie titleSlug allMoviesData = Some m \<longleftrightarrow>
      (\<exists>pre post. allMoviesData = pre @ m # post \<and> matchesSlug titleSlug m \<and>
         list_all (\<lambda>x. \<not> matchesSlug titleSlug x) pre)) \<and>
   (foundMovie titleSlug allMoviesData = None \<longleftrightarrow>
      list_all (\<lambda>x. \<not> matchesSlug titleSlug x) allMoviesData) \<and>
   (renderDetail (loadMovieData titleSlug (Some allMoviesData) initialPage) = MovieNotFound \<longleftrightarrow>
      list_all (\<lambda>x. \<not> matchesSlug titleSlug x) allMoviesData) \<and>
   foundMovie ''the-room'' [se7en] = None \<and>
   renderDetail (loadMovieData ''se7en'' (Some [se7en, theRoom]) initialPage) = MovieDetail se7en \<and>
   renderDetail
     (loadMovieData ''the-room'' (Some [se7en])
        (loadMovieData ''se7en'' (Some [se7en, theRoom]) initialPage)) = MovieDetail se7en"
proof -
  have a: "renderDetail (loadMovieData titleSlug (Some allMoviesData) initialPage) = MovieNotFound \<longleftrightarrow>
           foundMovie titleSlug allMoviesData = None"
    by (simp add: loadMovieData_def renderDetail_def initialPage_def split: option.splits)
  have b: "(foundMovie titleSlug allMoviesData = Some m \<longleftrightarrow>
      (\<exists>pre post. allMoviesData = pre @ m # post \<and> matchesSlug titleSlug m \<and>
         list_all (\<lambda>x. \<not> matchesSlug titleSlug x) pre)) \<and>
   (foundMovie titleSlug allMoviesData = None \<longleftrightarrow>
      list_all (\<lambda>x. \<not> matchesSlug titleSlug x) allMoviesData)"
    unfolding foundMovie_def by (simp add: find_first_match find_no_match)
  have c: "foundMovie ''the-room'' [se7en] = None"
    by code_simp
  have d: "foundMovie ''se7en'' [se7en, theRoom] = Some se7en"
    by code_simp
  have e: "renderDetail (loadMovieData ''se7en'' (Some [se7en, theRoom]) initialPage) = MovieDetail se7en"
    using d by (simp add: loadMovieData_def renderDetail_def initialPage_def)
  have f: "renderDetail
     (loadMovieData ''the-room'' (Some [se7en])
        (loadMovieData ''se7en'' (Some [se7en, theRoom]) initialPage)) = MovieDetail se7en"
    using c d by (simp add: loadMovieData_def renderDetail_def initialPage_def)
  show ?thesis using a b c e f by simp
qed

section \<open>Properties of the filter stage\<close>

text \<open>
  Claim C3: the \<open>oneSeason\<close> bucket passes an entry exactly when its runtime text
  denotes one season; in particular \<open>11 Seasons\<close> does not pass. The bucket tests
  whether the text contains \<open>1 Season\<close>, which \<open>11 Seasons\<close> does: the entry
  passes \<open>oneSeason\<close> as well as \<open>multiSeason\<close>.
\<close>

theorem oneSeason_accepts_11_Seasons:
  "runtimeMatch ''oneSeason'' (m\<lparr>runtime := Some ''11 Seasons''\<rparr>) \<and>
   runtimeMatch ''multiSeason'' (m\<lparr>runtime := Some ''11 Seasons''\<rparr>)"
proof -
  have a: "includesStr (toLowerCase ''11 Seasons'') ''season''"
    by code_simp
  have b: "includesStr ''11 Seasons'' ''1 Season''"
    by code_simp
  have c: "seasonMatch ''11 Seasons'' = Some 11"
    by code_simp
  show ?thesis using a b c by (simp add: runtimeMatch_def isSeason_def)
qed

lemma filterE_kept:
  "filterE p xs = Inr ys \<Longrightarrow> x \<in> set ys \<Longrightarrow> x \<in> set xs \<and> p x = Inr True"
proof (induction xs arbitrary: ys)
  case Nil
  then show ?case by simp
next
  case (Cons a xs)
  then show ?case
    by (auto split: sum.splits if_splits)
qed

lemma passesFilter_rated:
  assumes "passesFilter st m = Inr True"
  shows "ratingMatch (imdbRatingRange st) m"
  using assms by (auto simp: passesFilter_def split: sum.splits)

lemma filteredMovies_rated:
  assumes "filteredMovies st movies = Inr fs" and "m \<in> set fs"
  shows "ratingMatch (imdbRatingRange st) m"
  using assms filterE_kept[of "passesFilter st" movies fs m] passesFilter_rated[of st m]
  by (simp add: filteredMovies_def)

lemma searchMatch_described:
  assumes "description m \<noteq> None"
  shows "\<exists>b. searchMatch q m = Inr b"
  using assms by (auto simp: searchMatch_def split: option.splits)

lemma passesFilter_described:
  assumes "description m \<noteq> None"
  shows "\<exists>b. passesFilter st m = Inr b"
proof -
  obtain s where "searchMatch (searchQuery st) m = Inr s"
    using searchMatch_described[OF assms] by blast
  then show ?thesis by (simp add: passesFilter_def)
qed

lemma filterE_total:
  assumes "list_all (\<lambda>x. \<exists>b. p x = Inr b) xs"
  shows "\<exists>ys. filterE p xs = Inr ys"
  using assms
proof (induction xs)
  case Nil
  then show ?case by simp
next
  case (Cons x xs)
  then obtain b ys where "p x = Inr b" and "filterE p xs = Inr ys" by auto
  then show ?case by simp
qed

lemma ratingMatch_missing:
  assumes "imdbRating m = Undefined \<or> imdbRating m = Null \<or> imdbRating m = Num 0"
    and "rating m = Undefined"
  shows "\<not> ratingMatch rng m"
  using assms
  by (auto simp: ratingMatch_def effectiveRating_def jsOr_def truthyNum_def jsGe_def toNumber_def)

lemma ratingMatch_null:
  assumes "imdbRating m = Undefined \<or> imdbRating m = Null \<or> imdbRating m = Num 0"
    and "rating m = Null"
  shows "ratingMatch rng m = (fst rng \<le> 0 \<and> 0 \<le> snd rng)"
  using assms
  by (auto simp: ratingMatch_def effectiveRating_def jsOr_def truthyNum_def jsGe_def jsLe_def
      toNumber_def)

lemma ratingMatch_fallback:
  assumes "imdbRating m = Undefined \<or> imdbRating m = Null \<or> imdbRating m = Num 0"
    and "rating m = Num r"
  shows "ratingMatch rng m = (fst rng \<le> r \<and> r \<le> snd rng)"
  using assms
  by (auto simp: ratingMatch_def effectiveRating_def jsOr_def truthyNum_def jsGe_def jsLe_def
      toNumber_def)

lemma ratingMatch_imdb:
  assumes "imdbRating m = Num r" and "r \<noteq> 0"
  shows "ratingMatch rng m = (fst rng \<le> r \<and> r \<le> snd rng)"
  using assms
  by (simp add: ratingMatch_def effectiveRating_def jsOr_def truthyNum_def jsGe_def jsLe_def
      toNumber_def)

text \<open>
  Claim C1, as amended: the filter stage raises no exception on a list whose
  entries all carry a description, whatever their numeric fields hold. The rating
  predicate uses \<open>imdbRating\<close> when it is a non-zero number and \<open>rating\<close> otherwise
  (a missing, \<open>null\<close> or zero \<open>imdbRating\<close> falls back to \<open>rating\<close>). A \<open>rating\<close>
  of \<open>null\<close> is compared as 0, the minimal value: an entry whose \<open>imdbRating\<close> and
  \<open>rating\<close> are both \<open>null\<close> passes exactly when \<open>lo \<le> 0 \<le> hi\<close>, so it passes the
  default range. A \<open>rating\<close> whose key is missing is compared as \<open>NaN\<close>: an entry
  with neither key fails the predicate for every range and is never kept.
\<close>

theorem filteredMovies_total_and_rated:
  assumes "list_all (\<lambda>m. description m \<noteq> None) movies"
  shows "(\<exists>fs. filteredMovies st movies = Inr fs \<and>
            list_all (ratingMatch (imdbRatingRange st)) fs \<and>
            (imdbRating m = Undefined \<and> rating m = Undefined \<longrightarrow> m \<notin> set fs)) \<and>
         ((imdbRating m = Undefined \<or> imdbRating m = Null \<or> imdbRating m = Num 0) \<and>
          rating m = Undefined \<longrightarrow> \<not> ratingMatch rng m) \<and>
         ((imdbRating m = Undefined \<or> imdbRating m = Null \<or> imdbRating m = Num 0) \<and>
          rating m = Null \<longrightarrow> ratingMatch rng m = (fst rng \<le> 0 \<and> 0 \<le> snd rng)) \<and>
         ((imdbRating m = Undefined \<or> imdbRating m = Null \<or> imdbRating m = Num 0) \<and>
          rating m = Num r \<longrightarrow> ratingMatch rng m = (fst rng \<le> r \<and> r \<le> snd rng)) \<and>
         (imdbRating m = Num r \<and> r \<noteq> 0 \<longrightarrow>
            ratingMatch rng m = (fst rng \<le> r \<and> r \<le> snd rng))"
proof -
  have "list_all (\<lambda>x. \<exists>b. passesFilter st x = Inr b) movies"
    using assms passesFilter_described by (simp add: list_all_iff)
  then obtain fs where fs: "filteredMovies st movies = Inr fs"
    using filterE_total[of "passesFilter st" movies] by (auto simp: filteredMovies_def)
  have kept: "list_all (ratingMatch (imdbRatingRange st)) fs"
    using filteredMovies_rated[OF fs] by (simp add: list_all_iff)
  have out: "imdbRating m = Undefined \<and> rating m = Undefined \<longrightarrow> m \<notin> set fs"
  proof
    assume a: "imdbRating m = Undefined \<and> rating m = Undefined"
    then have "\<not> ratingMatch (imdbRatingRange st) m"
      using ratingMatch_missing[of m "imdbRatingRange st"] by simp
    then show "m \<notin> set fs" using filteredMovies_rated[OF fs, of m] by blast
  qed
  have 1: "\<exists>fs. filteredMovies st movies = Inr fs \<and>
            list_all (ratingMatch (imdbRatingRange st)) fs \<and>
            (imdbRating m = Undefined \<and> rating m = Undefined \<longrightarrow> m \<notin> set fs)"
    using fs kept out by blast
  have 2: "(imdbRating m = Undefined \<or> imdbRating m = Null \<or> imdbRating m = Num 0) \<and>
          rating m = Undefined \<longrightarrow> \<not> ratingMatch rng m"
    using ratingMatch_missing[of m rng] by blast
  have 3: "(imdbRating m = Undefined \<or> imdbRating m = Null \<or> imdbRating m = Num 0) \<and>
          rating m = Null \<longrightarrow> ratingMatch rng m = (fst rng \<le> 0 \<and> 0 \<le> snd rng)"
    using ratingMatch_null[of m rng] by blast
  have 4: "(imdbRating m = Undefined \<or> imdbRating m = Null \<or> imdbRating m = Num 0) \<and>
          rating m = Num r \<longrightarrow> ratingMatch rng m = (fst rng \<le> r \<and> r \<le> snd rng)"
    using ratingMatch_fallback[of m r rng] by blast
  have 5: "imdbRating m = Num r \<and> r \<noteq> 0 \<longrightarrow>
            ratingMatch rng m = (fst rng \<le> r \<and> r \<le> snd rng)"
    using ratingMatch_imdb[of m r rng] by blast
  show ?thesis using 1 2 3 4 5 by (intro conjI)
qed

theorem filteredMovies_total_and_rated_witness:
  "list_all (\<lambda>m. description m \<noteq> None) [se7en, unrated, nullRated, zeroImdb, ratingOnly] \<and>
   filteredMovies (initialState DateAdded) [se7en, unrated, nullRated, zeroImdb, ratingOnly]
     = Inr [se7en, nullRated, zeroImdb, ratingOnly] \<and>
   (\<exists>fs. filteredMovies (initialState DateAdded) [se7en, unrated, nullRated, zeroImdb, ratingOnly]
           = Inr fs \<and> unrated \<notin> set fs) \<and>
   \<not> ratingMatch (0, 10) unrated \<and>
   ratingMatch (0, 10) nullRated \<and> \<not> ratingMatch (1, 10) nullRated \<and>
   ratingMatch (7, 8) zeroImdb \<and> \<not> ratingMatch (0, 5) zeroImdb \<and>
   ratingMatch (9, 10) ratingOnly \<and>
   ratingMatch (8, 9) se7en \<and> \<not> ratingMatch (9, 10) se7en"
proof -
  have h: "list_all (\<lambda>m. description m \<noteq> None) [se7en, unrated, nullRated, zeroImdb, ratingOnly]"
    by (simp add: se7en_def unrated_def nullRated_def zeroImdb_def ratingOnly_def theRoom_def)
  have e: "filteredMovies (initialState DateAdded) [se7en, unrated, nullRated, zeroImdb, ratingOnly]
     = Inr [se7en, nullRated, zeroImdb, ratingOnly]"
    by code_simp
  have u: "imdbRating unrated = Undefined \<and> rating unrated = Undefined"
    by (simp add: unrated_def)
  have n: "imdbRating nullRated = Null \<and> rating nullRated = Null"
    by (simp add: nullRated_def)
  have z: "imdbRating zeroImdb = Num 0 \<and> rating zeroImdb = Num 7"
    by (simp add: zeroImdb_def)
  have o: "imdbRating ratingOnly = Undefined \<and> rating ratingOnly = Num 9"
    by (simp add: ratingOnly_def)
  have s: "imdbRating se7en = Num (86 / 10) \<and> (86 / 10 :: rat) \<noteq> 0"
    by (simp add: se7en_def)
  note t = filteredMovies_total_and_rated[OF h, of "initialState DateAdded"]
  show ?thesis
    using h e u n z o s
      t[of unrated "(0, 10)" 0] t[of nullRated "(0, 10)" 0] t[of nullRated "(1, 10)" 0]
      t[of zeroImdb "(7, 8)" 7] t[of zeroImdb "(0, 5)" 7] t[of ratingOnly "(9, 10)" 9]
      t[of se7en "(8, 9)" "86 / 10"] t[of se7en "(9, 10)" "86 / 10"]
    by simp
qed

theorem unrated_entry_filtered_out:
  "imdbRating unrated = Undefined \<and> rating unrated = Undefined \<and>
   imdbRatingRange (initialState DateAdded) = (0, 10) \<and>
   \<not> ratingMatch (imdbRatingRange (initialState DateAdded)) unrated \<and>
   filteredMovies (initialState DateAdded) [unrated] = Inr [] \<and>
   filteredMovies ((initialState DateAdded)\<lparr>searchQuery := ''alien''\<rparr>) [undescribed] = Inl TypeError"
  by code_simp

lemma filterE_mono:
  assumes "filterE p xs = Inr ys"
    and "\<forall>x\<in>set xs. \<forall>b. p x = Inr b \<longrightarrow> (\<exists>b'. q x = Inr b' \<and> (b \<longrightarrow> b'))"
  shows "\<exists>zs. filterE q xs = Inr zs \<and> length ys \<le> length zs"
  using assms
proof (induction xs arbitrary: ys)
  case Nil
  then show ?case by simp
next
  case (Cons x xs)
  from Cons.prems(1) obtain b ys' where px: "p x = Inr b" and pxs: "filterE p xs = Inr ys'"
    and ys: "ys = (if b then x # ys' else ys')"
    by (auto split: sum.splits)
  from Cons.prems(2) px obtain b' where qx: "q x = Inr b'" and imp: "b \<longrightarrow> b'"
    by auto
  have "\<forall>x\<in>set xs. \<forall>b. p x = Inr b \<longrightarrow> (\<exists>b'. q x = Inr b' \<and> (b \<longrightarrow> b'))"
    using Cons.prems(2) by simp
  from Cons.IH[OF pxs this] obtain zs' where qxs: "filterE q xs = Inr zs'"
    and len: "length ys' \<le> length zs'" by blast
  have "filterE q (x # xs) = Inr (if b' then x # zs' else zs')"
    using qx qxs by simp
  moreover have "length ys \<le> length (if b' then x # zs' else zs')"
    using ys imp len by auto
  ultimately show ?case by blast
qed

lemma filteredMovies_mono:
  assumes "filteredMovies st movies = Inr fs"
    and "\<And>m b. passesFilter st m = Inr b \<Longrightarrow> \<exists>b'. passesFilter st' m = Inr b' \<and> (b \<longrightarrow> b')"
  shows "\<exists>a. filteredMovies st' movies = Inr a \<and> length fs \<le> length a"
  using assms filterE_mono[of "passesFilter st" movies fs "passesFilter st'"]
  unfolding filteredMovies_def by blast

lemma passes_split:
  "passesFilter st m = Inr b \<longleftrightarrow>
     (\<exists>s. searchMatch (searchQuery st) m = Inr s \<and>
        b = (genreMatch (selectedGenres st) m \<and> yearMatch (selectedYears st) m \<and> s \<and>
             ratingMatch (imdbRatingRange st) m \<and> runtimeMatch (runtimeFilter st) m \<and>
             tagMatch (selectedTags st) m))"
  by (auto simp: passesFilter_def split: sum.splits)

lemma clear_genres:
  "passesFilter st m = Inr b \<Longrightarrow>
     \<exists>b'. passesFilter (st\<lparr>selectedGenres := []\<rparr>) m = Inr b' \<and> (b \<longrightarrow> b')"
  unfolding passes_split by (auto simp: genreMatch_def)

lemma clear_years:
  "passesFilter st m = Inr b \<Longrightarrow>
     \<exists>b'. passesFilter (st\<lparr>selectedYears := []\<rparr>) m = Inr b' \<and> (b \<longrightarrow> b')"
  unfolding passes_split by (auto simp: yearMatch_def)

lemma clear_tags:
  "passesFilter st m = Inr b \<Longrightarrow>
     \<exists>b'. passesFilter (st\<lparr>selectedTags := []\<rparr>) m = Inr b' \<and> (b \<longrightarrow> b')"
  unfolding passes_split by (auto simp: tagMatch_def)

lemma clear_search:
  "passesFilter st m = Inr b \<Longrightarrow>
     \<exists>b'. passesFilter (st\<lparr>searchQuery := []\<rparr>) m = Inr b' \<and> (b \<longrightarrow> b')"
  unfolding passes_split by (auto simp: searchMatch_def)

lemma clear_runtime:
  "passesFilter st m = Inr b \<Longrightarrow>
     \<exists>b'. passesFilter (st\<lparr>runtimeFilter := ''all''\<rparr>) m = Inr b' \<and> (b \<longrightarrow> b')"
  unfolding passes_split by (auto simp: runtimeMatch_def)

lemma add_genre:
  assumes "selectedGenres st \<noteq> []"
  shows "passesFilter st m = Inr b \<Longrightarrow>
     \<exists>b'. passesFilter (handleGenreChange g True st) m = Inr b' \<and> (b \<longrightarrow> b')"
  unfolding passes_split using assms by (auto simp: genreMatch_def handleGenreChange_def)

text \<open>
  Claim C4, as amended: switching a predicate off never shrinks the result, so
  switching one on never enlarges it. Whenever the filter stage returns for a
  state, it also returns, with at least as many entries, after the genre, year or
  tag selection or the search query is cleared or the runtime bucket is set to
  \<open>all\<close>. Adding a genre to a non-empty genre selection goes the other way: an
  entry matches when any selected genre is among its genres, so the result never
  shrinks.
\<close>

theorem filter_activation_monotone:
  assumes "filteredMovies st movies = Inr fs"
  shows "(\<exists>a. filteredMovies (st\<lparr>selectedGenres := []\<rparr>) movies = Inr a \<and> length fs \<le> length a) \<and>
         (\<exists>a. filteredMovies (st\<lparr>selectedYears := []\<rparr>) movies = Inr a \<and> length fs \<le> length a) \<and>
         (\<exists>a. filteredMovies (st\<lparr>selectedTags := []\<rparr>) movies = Inr a \<and> length fs \<le> length a) \<and>
         (\<exists>a. filteredMovies (st\<lparr>searchQuery := []\<rparr>) movies = Inr a \<and> length fs \<le> length a) \<and>
         (\<exists>a. filteredMovies (st\<lparr>runtimeFilter := ''all''\<rparr>) movies = Inr a \<and>
               length fs \<le> length a) \<and>
         (selectedGenres st \<noteq> [] \<longrightarrow>
            (\<exists>a. filteredMovies (handleGenreChange g True st) movies = Inr a \<and>
                  length fs \<le> length a))"
proof -
  note m = filteredMovies_mono[OF assms]
  have 1: "\<exists>a. filteredMovies (st\<lparr>selectedGenres := []\<rparr>) movies = Inr a \<and> length fs \<le> length a"
    by (rule m) (rule clear_genres)
  have 2: "\<exists>a. filteredMovies (st\<lparr>selectedYears := []\<rparr>) movies = Inr a \<and> length fs \<le> length a"
    by (rule m) (rule clear_years)
  have 3: "\<exists>a. filteredMovies (st\<lparr>selectedTags := []\<rparr>) movies = Inr a \<and> length fs \<le> length a"
    by (rule m) (rule clear_tags)
  have 4: "\<exists>a. filteredMovies (st\<lparr>searchQuery := []\<rparr>) movies = Inr a \<and> length fs \<le> length a"
    by (rule m) (rule clear_search)
  have 5: "\<exists>a. filteredMovies (st\<lparr>runtimeFilter := ''all''\<rparr>) movies = Inr a \<and> length fs \<le> length a"
    by (rule m) (rule clear_runtime)
  have 6: "selectedGenres st \<noteq> [] \<longrightarrow>
            (\<exists>a. filteredMovies (handleGenreChange g True st) movies = Inr a \<and>
                  length fs \<le> length a)"
  proof
    assume ne: "selectedGenres st \<noteq> []"
    show "\<exists>a. filteredMovies (handleGenreChange g True st) movies = Inr a \<and> length fs \<le> length a"
      by (rule m) (rule add_genre[OF ne])
  qed
  show ?thesis using 1 2 3 4 5 6 by blast
qed

theorem filter_activation_monotone_witness:
  "filteredMovies (handleGenreChange ''Crime'' True (initialState DateAdded)) [se7en, theRoom]
     = Inr [se7en] \<and>
   selectedGenres (handleGenreChange ''Crime'' True (initialState DateAdded)) \<noteq> [] \<and>
   (\<exists>a. filteredMovies ((handleGenreChange ''Crime'' True (initialState DateAdded))\<lparr>selectedGenres := []\<rparr>)
          [se7en, theRoom] = Inr a \<and> length [se7en] \<le> length a) \<and>
   (\<exists>a. filteredMovies (handleGenreChange ''Drama'' True
            (handleGenreChange ''Crime'' True (initialState DateAdded))) [se7en, theRoom] = Inr a \<and>
         length [se7en] \<le> length a)"
proof -
  have h: "filteredMovies (handleGenreChange ''Crime'' True (initialState DateAdded)) [se7en, theRoom]
     = Inr [se7en]"
    by code_simp
  have n: "selectedGenres (handleGenreChange ''Crime'' True (initialState DateAdded)) \<noteq> []"
    by (simp add: handleGenreChange_def)
  show ?thesis
    using h n filter_activation_monotone[OF h, of "''Drama''"] by simp
qed

theorem adding_genre_grows_result:
  "filteredMovies (handleGenreChange ''Crime'' True (initialState DateAdded)) [se7en, theRoom]
     = Inr [se7en] \<and>
   filteredMovies (handleGenreChange ''Drama'' True
      (handleGenreChange ''Crime'' True (initialState DateAdded))) [se7en, theRoom]
     = Inr [se7en, theRoom]"
  by code_simp

section \<open>Properties of the page number\<close>

text \<open>
  Claim C6: changing any filter resets the page number to 1, changing the sort
  key does not. The genre, year, tag and search handlers reset it; the rating
  range and the runtime bucket are changed through the bare state setters, which
  leave the page number as it is: from page 3 the user stays on page 3.
\<close>

theorem rating_and_runtime_change_keep_page:
  "currentPage (onImdbRatingChange (7, 10) ((initialState DateAdded)\<lparr>currentPage := 3\<rparr>)) = 3 \<and>
   currentPage (onRuntimeChange ''short'' ((initialState DateAdded)\<lparr>currentPage := 3\<rparr>)) = 3 \<and>
   currentPage (onImdbRatingChange r st) = currentPage st \<and>
   currentPage (onRuntimeChange f st) = currentPage st \<and>
   currentPage (setSortBy k st) = currentPage st \<and>
   currentPage (handleGenreChange g checked st) = 1 \<and>
   currentPage (handleClearGenres st) = 1 \<and>
   currentPage (handleYearChange y checked st) = 1 \<and>
   currentPage (handleTagChange t checked st) = 1 \<and>
   currentPage (onSearchChange q st) = 1"
  by (simp add: onImdbRatingChange_def onRuntimeChange_def setSortBy_def handleGenreChange_def
      handleClearGenres_def handleYearChange_def handleTagChange_def onSearchChange_def)

section \<open>Properties of the sort stage\<close>

lemma set_insertBy: "set (insertBy cmp x ys) = insert x (set ys)"
  by (induction ys) auto

lemma mset_insertBy: "mset (insertBy cmp x ys) = add_mset x (mset ys)"
  by (induction ys) auto

lemma mset_jsSort: "mset (jsSort cmp xs) = mset xs"
  unfolding jsSort_def by (induction xs) (auto simp: mset_insertBy)

lemma set_jsSort: "set (jsSort cmp xs) = set xs"
  unfolding jsSort_def by (induction xs) (auto simp: set_insertBy)

lemma insertBy_sorted:
  fixes key :: "'a \<Rightarrow> rat"
  assumes "sorted_wrt (\<lambda>a b. key b \<le> key a) ys"
    and "\<forall>y\<in>set ys. jsPositive (cmp x y) = (key x < key y)"
  shows "sorted_wrt (\<lambda>a b. key b \<le> key a) (insertBy cmp x ys)"
  using assms
proof (induction ys)
  case Nil
  then show ?case by simp
next
  case (Cons y ys)
  have s1: "sorted_wrt (\<lambda>a b. key b \<le> key a) ys" and s2: "\<forall>z\<in>set ys. key z \<le> key y"
    using Cons.prems(1) by simp_all
  have c1: "jsPositive (cmp x y) = (key x < key y)"
    and c2: "\<forall>z\<in>set ys. jsPositive (cmp x z) = (key x < key z)"
    using Cons.prems(2) by simp_all
  show ?case
  proof (cases "jsPositive (cmp x y)")
    case True
    then have lt: "key x < key y" using c1 by simp
    have srt: "sorted_wrt (\<lambda>a b. key b \<le> key a) (insertBy cmp x ys)"
      using Cons.IH[OF s1 c2] .
    have "\<forall>z\<in>set (insertBy cmp x ys). key z \<le> key y"
      using s2 lt by (simp add: set_insertBy)
    then show ?thesis using True srt by simp
  next
    case False
    then have ge: "key y \<le> key x" using c1 by simp
    have "\<forall>z\<in>set ys. key z \<le> key x"
    proof
      fix z assume "z \<in> set ys"
      then have "key z \<le> key y" using s2 by simp
      then show "key z \<le> key x" using ge by simp
    qed
    then show ?thesis using False ge s1 s2 by simp
  qed
qed

lemma jsSort_sorted:
  fixes key :: "'a \<Rightarrow> rat"
  assumes "\<forall>x\<in>set xs. \<forall>y\<in>set xs. jsPositive (cmp x y) = (key x < key y)"
  shows "sorted_wrt (\<lambda>a b. key b \<le> key a) (jsSort cmp xs)"
  using assms
proof (induction xs)
  case Nil
  then show ?case by (simp add: jsSort_def)
next
  case (Cons x xs)
  have p: "\<forall>a\<in>set xs. \<forall>b\<in>set xs. jsPositive (cmp a b) = (key a < key b)"
    using Cons.prems by simp
  have ih: "sorted_wrt (\<lambda>a b. key b \<le> key a) (jsSort cmp xs)"
    using Cons.IH[OF p] .
  have "\<forall>y\<in>set (jsSort cmp xs). jsPositive (cmp x y) = (key x < key y)"
    using Cons.prems by (simp add: set_jsSort)
  then have "sorted_wrt (\<lambda>a b. key b \<le> key a) (insertBy cmp x (jsSort cmp xs))"
    using ih insertBy_sorted[of key "jsSort cmp xs" cmp x] by blast
  then show ?case by (simp add: jsSort_def)
qed

lemma toNumber_present: "v \<noteq> Undefined \<Longrightarrow> toNumber v = Some (numValue v)"
  by (cases v) (simp_all add: toNumber_def numValue_def)

lemma toNumber_orZero: "toNumber (jsOr v (Num 0)) = Some (numValue v)"
  by (cases v) (simp_all add: jsOr_def truthyNum_def toNumber_def numValue_def)

lemma jsPositive_sub:
  assumes "toNumber x = Some p" and "toNumber y = Some q"
  shows "jsPositive (jsSub y x) = (p < q)"
  using assms by (simp add: jsPositive_def jsSub_def)

lemma cmp_DateAdded:
  assumes "movieId a \<noteq> Undefined" and "movieId b \<noteq> Undefined"
  shows "jsPositive (compareMovies lc DateAdded a b) =
     (sortValue DateAdded a < sortValue DateAdded b)"
  using jsPositive_sub[OF toNumber_present[OF assms(1)] toNumber_present[OF assms(2)]]
  by (simp add: compareMovies_def sortValue_def)

lemma cmp_DateAddedLatest:
  assumes "movieId a \<noteq> Undefined" and "movieId b \<noteq> Undefined"
  shows "jsPositive (compareMovies lc DateAddedLatest a b) =
     (- sortValue DateAddedLatest a < - sortValue DateAddedLatest b)"
  using jsPositive_sub[OF toNumber_present[OF assms(2)] toNumber_present[OF assms(1)]]
  by (simp add: compareMovies_def sortValue_def)

lemma cmp_Year:
  assumes "year a \<noteq> Undefined" and "year b \<noteq> Undefined"
  shows "jsPositive (compareMovies lc Year a b) = (sortValue Year a < sortValue Year b)"
  using jsPositive_sub[OF toNumber_present[OF assms(1)] toNumber_present[OF assms(2)]]
  by (simp add: compareMovies_def sortValue_def)

lemma cmp_UserRating:
  "jsPositive (compareMovies lc UserRating a b) =
     (sortValue UserRating a < sortValue UserRating b)"
  using jsPositive_sub[OF toNumber_orZero[of "userRating a"] toNumber_orZero[of "userRating b"]]
  by (simp add: compareMovies_def sortValue_def)

lemma cmp_CommunityRating:
  "jsPositive (compareMovies lc CommunityRating a b) =
     (sortValue CommunityRating a < sortValue CommunityRating b)"
  using jsPositive_sub[OF toNumber_orZero[of "communityRating a"]
      toNumber_orZero[of "communityRating b"]]
  by (simp add: compareMovies_def sortValue_def)

lemma ratingMatch_value:
  assumes "ratingMatch rng m"
  shows "toNumber (effectiveRating m) = Some (sortValue ImdbRating m)"
proof (cases "imdbRating m")
  case Undefined
  then show ?thesis using assms
    by (cases "rating m")
       (simp_all add: ratingMatch_def effectiveRating_def jsOr_def truthyNum_def jsGe_def
          toNumber_def sortValue_def numValue_def)
next
  case Null
  then show ?thesis using assms
    by (cases "rating m")
       (simp_all add: ratingMatch_def effectiveRating_def jsOr_def truthyNum_def jsGe_def
          toNumber_def sortValue_def numValue_def)
next
  case (Num r)
  show ?thesis
  proof (cases "r = 0")
    case True
    then show ?thesis using assms Num
      by (cases "rating m")
         (simp_all add: ratingMatch_def effectiveRating_def jsOr_def truthyNum_def jsGe_def
            toNumber_def sortValue_def numValue_def)
  next
    case False
    then show ?thesis using Num
      by (simp add: effectiveRating_def jsOr_def truthyNum_def toNumber_def sortValue_def)
  qed
qed

lemma cmp_ImdbRating:
  assumes "ratingMatch rng a" and "ratingMatch rng b"
  shows "jsPositive (compareMovies lc ImdbRating a b) =
     (sortValue ImdbRating a < sortValue ImdbRating b)"
  using jsPositive_sub[OF ratingMatch_value[OF assms(1)] ratingMatch_value[OF assms(2)]]
  by (simp add: compareMovies_def)

lemma documentedValue_agrees:
  assumes "imdbRating m \<noteq> Num 0"
  shows "documentedValue ImdbRating m = sortValue ImdbRating m"
  using assms by (cases "imdbRating m") (auto simp: documentedValue_def sortValue_def)

text \<open>
  Claim C5, as amended: for every list that the filter stage returns, the sorted
  list is a rearrangement of it. Under \<open>imdbRating\<close> it is non-increasing in the
  effective rating, which is \<open>imdbRating\<close> when that is a non-zero number and
  \<open>rating\<close> otherwise: a missing, \<open>null\<close> or zero \<open>imdbRating\<close> falls back to
  \<open>rating\<close>; where no entry has an \<open>imdbRating\<close> of 0 this is the documented
  effective rating. Under \<open>userRating\<close> and \<open>communityRating\<close> it is non-increasing
  with a missing value counted as 0. Under \<open>dateAdded\<close> and \<open>year\<close> it is
  non-increasing, and under \<open>dateAddedLatest\<close> non-decreasing, provided every
  entry carries the identifier, respectively the year; a missing one is not
  sorted as 0, since the comparator is then \<open>NaN\<close>.
\<close>

theorem sortedMovies_ordered:
  assumes "filteredMovies st movies = Inr fs"
  shows "mset (sortedMovies lc k fs) = mset fs \<and>
    sorted_wrt (\<lambda>a b. sortValue ImdbRating b \<le> sortValue ImdbRating a)
      (sortedMovies lc ImdbRating fs) \<and>
    sorted_wrt (\<lambda>a b. sortValue UserRating b \<le> sortValue UserRating a)
      (sortedMovies lc UserRating fs) \<and>
    sorted_wrt (\<lambda>a b. sortValue CommunityRating b \<le> sortValue CommunityRating a)
      (sortedMovies lc CommunityRating fs) \<and>
    (list_all (\<lambda>m. movieId m \<noteq> Undefined) fs \<longrightarrow>
       sorted_wrt (\<lambda>a b. sortValue DateAdded b \<le> sortValue DateAdded a)
         (sortedMovies lc DateAdded fs) \<and>
       sorted_wrt (\<lambda>a b. sortValue DateAddedLatest a \<le> sortValue DateAddedLatest b)
         (sortedMovies lc DateAddedLatest fs)) \<and>
    (list_all (\<lambda>m. year m \<noteq> Undefined) fs \<longrightarrow>
       sorted_wrt (\<lambda>a b. sortValue Year b \<le> sortValue Year a) (sortedMovies lc Year fs)) \<and>
    (list_all (\<lambda>m. imdbRating m \<noteq> Num 0) fs \<longrightarrow>
       sorted_wrt (\<lambda>a b. documentedValue ImdbRating b \<le> documentedValue ImdbRating a)
         (sortedMovies lc ImdbRating fs))"
proof -
  have perm: "mset (sortedMovies lc k fs) = mset fs"
    by (simp add: sortedMovies_def mset_jsSort)
  have u: "sorted_wrt (\<lambda>a b. sortValue UserRating b \<le> sortValue UserRating a)
      (sortedMovies lc UserRating fs)"
    unfolding sortedMovies_def by (rule jsSort_sorted) (simp add: cmp_UserRating)
  have c: "sorted_wrt (\<lambda>a b. sortValue CommunityRating b \<le> sortValue CommunityRating a)
      (sortedMovies lc CommunityRating fs)"
    unfolding sortedMovies_def by (rule jsSort_sorted) (simp add: cmp_CommunityRating)
  have "\<forall>a\<in>set fs. \<forall>b\<in>set fs. jsPositive (compareMovies lc ImdbRating a b) =
     (sortValue ImdbRating a < sortValue ImdbRating b)"
  proof (intro ballI)
    fix a b assume "a \<in> set fs" and "b \<in> set fs"
    then have "ratingMatch (imdbRatingRange st) a" and "ratingMatch (imdbRatingRange st) b"
      using filteredMovies_rated[OF assms] by blast+
    then show "jsPositive (compareMovies lc ImdbRating a b) =
      (sortValue ImdbRating a < sortValue ImdbRating b)"
      by (rule cmp_ImdbRating)
  qed
  then have i: "sorted_wrt (\<lambda>a b. sortValue ImdbRating b \<le> sortValue ImdbRating a)
      (sortedMovies lc ImdbRating fs)"
    unfolding sortedMovies_def by (rule jsSort_sorted)
  have d: "list_all (\<lambda>m. movieId m \<noteq> Undefined) fs \<longrightarrow>
       sorted_wrt (\<lambda>a b. sortValue DateAdded b \<le> sortValue DateAdded a)
         (sortedMovies lc DateAdded fs) \<and>
       sorted_wrt (\<lambda>a b. sortValue DateAddedLatest a \<le> sortValue DateAddedLatest b)
         (sortedMovies lc DateAddedLatest fs)"
  proof
    assume "list_all (\<lambda>m. movieId m \<noteq> Undefined) fs"
    then have ids: "\<forall>m\<in>set fs. movieId m \<noteq> Undefined" by (simp add: list_all_iff)
    have d1: "sorted_wrt (\<lambda>a b. sortValue DateAdded b \<le> sortValue DateAdded a)
         (sortedMovies lc DateAdded fs)"
      unfolding sortedMovies_def using ids by (intro jsSort_sorted) (simp add: cmp_DateAdded)
    have "sorted_wrt (\<lambda>a b. - sortValue DateAddedLatest b \<le> - sortValue DateAddedLatest a)
         (sortedMovies lc DateAddedLatest fs)"
      unfolding sortedMovies_def using ids
      by (intro jsSort_sorted[where key = "\<lambda>m. - sortValue DateAddedLatest m"])
         (simp add: cmp_DateAddedLatest)
    then have d2: "sorted_wrt (\<lambda>a b. sortValue DateAddedLatest a \<le> sortValue DateAddedLatest b)
         (sortedMovies lc DateAddedLatest fs)"
      by simp
    show "sorted_wrt (\<lambda>a b. sortValue DateAdded b \<le> sortValue DateAdded a)
         (sortedMovies lc DateAdded fs) \<and>
       sorted_wrt (\<lambda>a b. sortValue DateAddedLatest a \<le> sortValue DateAddedLatest b)
         (sortedMovies lc DateAddedLatest fs)"
      using d1 d2 by (rule conjI)
  qed
  have y: "list_all (\<lambda>m. year m \<noteq> Undefined) fs \<longrightarrow>
       sorted_wrt (\<lambda>a b. sortValue Year b \<le> sortValue Year a) (sortedMovies lc Year fs)"
  proof
    assume "list_all (\<lambda>m. year m \<noteq> Undefined) fs"
    then have ys: "\<forall>m\<in>set fs. year m \<noteq> Undefined" by (simp add: list_all_iff)
    show "sorted_wrt (\<lambda>a b. sortValue Year b \<le> sortValue Year a) (sortedMovies lc Year fs)"
      unfolding sortedMovies_def using ys by (intro jsSort_sorted) (simp add: cmp_Year)
  qed
  have z: "list_all (\<lambda>m. imdbRating m \<noteq> Num 0) fs \<longrightarrow>
       sorted_wrt (\<lambda>a b. documentedValue ImdbRating b \<le> documentedValue ImdbRating a)
         (sortedMovies lc ImdbRating fs)"
  proof
    assume "list_all (\<lambda>m. imdbRating m \<noteq> Num 0) fs"
    then have "\<forall>m\<in>set (sortedMovies lc ImdbRating fs). imdbRating m \<noteq> Num 0"
      by (simp add: list_all_iff sortedMovies_def set_jsSort)
    then have "\<forall>m\<in>set (sortedMovies lc ImdbRating fs).
        documentedValue ImdbRating m = sortValue ImdbRating m"
      using documentedValue_agrees by blast
    then show "sorted_wrt (\<lambda>a b. documentedValue ImdbRating b \<le> documentedValue ImdbRating a)
         (sortedMovies lc ImdbRating fs)"
      using sorted_wrt_mono_rel[of "sortedMovies lc ImdbRating fs"
          "\<lambda>a b. sortValue ImdbRating b \<le> sortValue ImdbRating a"
          "\<lambda>a b. documentedValue ImdbRating b \<le> documentedValue ImdbRating a"] i
      by simp
  qed
  show ?thesis using perm i u c d y z by (intro conjI)
qed

theorem sortedMovies_ordered_witness:
  "filteredMovies (initialState ImdbRating) [theRoom, zeroImdb, se7en, ratingOnly, nullRated]
     = Inr [theRoom, zeroImdb, se7en, ratingOnly, nullRated] \<and>
   sortedMovies (\<lambda>a b. 0) ImdbRating [theRoom, zeroImdb, se7en, ratingOnly, nullRated]
     = [ratingOnly, se7en, zeroImdb, theRoom, nullRated] \<and>
   map (sortValue ImdbRating) [ratingOnly, se7en, zeroImdb, theRoom, nullRated]
     = [9, 86 / 10, 7, 37 / 10, 0] \<and>
   sorted_wrt (\<lambda>a b. sortValue ImdbRating b \<le> sortValue ImdbRating a)
     (sortedMovies (\<lambda>a b. 0) ImdbRating [theRoom, zeroImdb, se7en, ratingOnly, nullRated]) \<and>
   list_all (\<lambda>m. movieId m \<noteq> Undefined) [theRoom, zeroImdb, se7en, ratingOnly, nullRated] \<and>
   sorted_wrt (\<lambda>a b. sortValue DateAdded b \<le> sortValue DateAdded a)
     (sortedMovies (\<lambda>a b. 0) DateAdded [theRoom, zeroImdb, se7en, ratingOnly, nullRated]) \<and>
   list_all (\<lambda>m. year m \<noteq> Undefined) [theRoom, zeroImdb, se7en, ratingOnly, nullRated] \<and>
   sorted_wrt (\<lambda>a b. sortValue Year b \<le> sortValue Year a)
     (sortedMovies (\<lambda>a b. 0) Year [theRoom, zeroImdb, se7en, ratingOnly, nullRated]) \<and>
   filteredMovies (initialState ImdbRating) [theRoom, se7en, ratingOnly]
     = Inr [theRoom, se7en, ratingOnly] \<and>
   list_all (\<lambda>m. imdbRating m \<noteq> Num 0) [theRoom, se7en, ratingOnly] \<and>
   sorted_wrt (\<lambda>a b. documentedValue ImdbRating b \<le> documentedValue ImdbRating a)
     (sortedMovies (\<lambda>a b. 0) ImdbRating [theRoom, se7en, ratingOnly])"
proof -
  have h: "filteredMovies (initialState ImdbRating) [theRoom, zeroImdb, se7en, ratingOnly, nullRated]
     = Inr [theRoom, zeroImdb, se7en, ratingOnly, nullRated]"
    by code_simp
  have e: "sortedMovies (\<lambda>a b. 0) ImdbRating [theRoom, zeroImdb, se7en, ratingOnly, nullRated]
     = [ratingOnly, se7en, zeroImdb, theRoom, nullRated]"
    by code_simp
  have v: "map (sortValue ImdbRating) [ratingOnly, se7en, zeroImdb, theRoom, nullRated]
     = [9, 86 / 10, 7, 37 / 10, 0]"
    by code_simp
  have i: "list_all (\<lambda>m. movieId m \<noteq> Undefined) [theRoom, zeroImdb, se7en, ratingOnly, nullRated]"
    by code_simp
  have y: "list_all (\<lambda>m. year m \<noteq> Undefined) [theRoom, zeroImdb, se7en, ratingOnly, nullRated]"
    by code_simp
  have h2: "filteredMovies (initialState ImdbRating) [theRoom, se7en, ratingOnly]
     = Inr [theRoom, se7en, ratingOnly]"
    by code_simp
  have z: "list_all (\<lambda>m. imdbRating m \<noteq> Num 0) [theRoom, se7en, ratingOnly]"
    by code_simp
  have a: "sorted_wrt (\<lambda>a b. sortValue ImdbRating b \<le> sortValue ImdbRating a)
     (sortedMovies (\<lambda>a b. 0) ImdbRating [theRoom, zeroImdb, se7en, ratingOnly, nullRated]) \<and>
   sorted_wrt (\<lambda>a b. sortValue DateAdded b \<le> sortValue DateAdded a)
     (sortedMovies (\<lambda>a b. 0) DateAdded [theRoom, zeroImdb, se7en, ratingOnly, nullRated]) \<and>
   sorted_wrt (\<lambda>a b. sortValue Year b \<le> sortValue Year a)
     (sortedMovies (\<lambda>a b. 0) Year [theRoom, zeroImdb, se7en, ratingOnly, nullRated])"
    using sortedMovies_ordered[OF h, of "\<lambda>a b. 0" ImdbRating] i y by blast
  have b: "sorted_wrt (\<lambda>a b. documentedValue ImdbRating b \<le> documentedValue ImdbRating a)
     (sortedMovies (\<lambda>a b. 0) ImdbRating [theRoom, se7en, ratingOnly])"
    using sortedMovies_ordered[OF h2, of "\<lambda>a b. 0" ImdbRating] z by blast
  show ?thesis using h e v i y h2 z a b by (intro conjI) blast+
qed

theorem zero_imdbRating_sorted_by_rating:
  "filteredMovies (initialState ImdbRating) [theRoom, zeroImdb] = Inr [theRoom, zeroImdb] \<and>
   sortedMovies (\<lambda>a b. 0) ImdbRating [theRoom, zeroImdb] = [zeroImdb, theRoom] \<and>
   imdbRating zeroImdb = Num 0 \<and> rating zeroImdb = Num 7 \<and>
   documentedValue ImdbRating zeroImdb = 0 \<and>
   documentedValue ImdbRating theRoom = 37 / 10 \<and>
   \<not> sorted_wrt (\<lambda>a b. documentedValue ImdbRating b \<le> documentedValue ImdbRating a)
       (sortedMovies (\<lambda>a b. 0) ImdbRating [theRoom, zeroImdb]) \<and>
   filteredMovies (initialState Year) [se7en, yearless, theRoom] = Inr [se7en, yearless, theRoom] \<and>
   sortedMovies (\<lambda>a b. 0) Year [se7en, yearless, theRoom] = [se7en, yearless, theRoom] \<and>
   map (documentedValue Year) [se7en, yearless, theRoom] = [1995, 0, 2003] \<and>
   \<not> sorted_wrt (\<lambda>a b. documentedValue Year b \<le> documentedValue Year a)
       (sortedMovies (\<lambda>a b. 0) Year [se7en, yearless, theRoom])"
  by code_simp

section \<open>Properties of the user store\<close>

text \<open>
  Claim C8: after every successful user mutation the three stored copies of the
  user record are identical; in particular a profile update that changes both the
  e-mail address and the password leaves all three carrying the new password. The
  handler writes the copy under the new e-mail key before it applies the password
  and the picture, and skips the later e-mail write when the address changed: the
  e-mail copy keeps the old password while the other two carry the new one.
\<close>

theorem updateProfile_email_copy_stale:
  "fst (updateProfile annRequest False annStore) = 200 \<and>
   map_option password (snd (updateProfile annRequest False annStore) ''user:id:u1'') = Some ''new'' \<and>
   map_option password (snd (updateProfile annRequest False annStore) ''user:username:ann'')
     = Some ''new'' \<and>
   map_option password (snd (updateProfile annRequest False annStore) ''user:email:ann@b.io'')
     = Some ''old''"
  by code_simp

theorem updateProfile_email_copy_stale_witness:
  "snd (updateProfile annRequest False annStore) ''user:email:ann@b.io'' \<noteq>
   snd (updateProfile annRequest False annStore) ''user:id:u1''"
proof
  assume "snd (updateProfile annRequest False annStore) ''user:email:ann@b.io'' =
          snd (updateProfile annRequest False annStore) ''user:id:u1''"
  then have "map_option password (snd (updateProfile annRequest False annStore) ''user:email:ann@b.io'')
           = map_option password (snd (updateProfile annRequest False annStore) ''user:id:u1'')"
    by simp
  then show False using updateProfile_email_copy_stale by simp
qed

section \<open>Properties of the recommendations\<close>

lemma take_shuffle_subset:
  assumes "mset (shuffle xs) = mset xs"
  shows "set (take n (shuffle xs)) \<subseteq> set xs"
proof -
  have "set (shuffle xs) = set xs" using assms by (rule mset_eq_setD)
  then show ?thesis using set_take_subset[of n "shuffle xs"] by simp
qed

text \<open>
  Claim C9: whatever order the random shuffle produces, the recommended list has
  at most 5 entries, and each of them is an entry of the catalogue other than the
  reference entry, one of whose comma-separated genre pieces, trimmed and
  lower-cased, equals the reference entry's primary genre.
\<close>

theorem similarMovies_membership:
  assumes "\<And>xs. mset (shuffle xs) = mset xs"
  shows "length (similarMovies shuffle found allMoviesData) \<le> 5 \<and>
    list_all (\<lambda>m. movieId m \<noteq> movieId found \<and> m \<noteq> found \<and> m \<in> set allMoviesData \<and>
                  (\<exists>g. genre found = Some g \<and> sharesGenre (firstGenre g) m))
      (similarMovies shuffle found allMoviesData)"
proof (cases "genre found")
  case None
  then show ?thesis by (simp add: similarMovies_def)
next
  case (Some g)
  show ?thesis
  proof (cases "g = []")
    case True
    then show ?thesis using Some by (simp add: similarMovies_def)
  next
    case False
    let ?c = "filter (\<lambda>m. movieId m \<noteq> movieId found \<and> sharesGenre (firstGenre g) m) allMoviesData"
    have eq: "similarMovies shuffle found allMoviesData = take 5 (shuffle ?c)"
      using Some False by (simp add: similarMovies_def)
    have sub: "set (take 5 (shuffle ?c)) \<subseteq> set ?c"
      using assms by (rule take_shuffle_subset)
    have "\<forall>m\<in>set (take 5 (shuffle ?c)). movieId m \<noteq> movieId found \<and> m \<noteq> found \<and>
            m \<in> set allMoviesData \<and> sharesGenre (firstGenre g) m"
    proof
      fix m assume "m \<in> set (take 5 (shuffle ?c))"
      then have "m \<in> set ?c" using sub by blast
      then have a: "m \<in> set allMoviesData" and b: "movieId m \<noteq> movieId found"
        and c: "sharesGenre (firstGenre g) m"
        by simp_all
      have "m \<noteq> found"
      proof
        assume "m = found"
        then show False using b by simp
      qed
      then show "movieId m \<noteq> movieId found \<and> m \<noteq> found \<and>
            m \<in> set allMoviesData \<and> sharesGenre (firstGenre g) m"
        using a b c by blast
    qed
    then have la: "list_all (\<lambda>m. movieId m \<noteq> movieId found \<and> m \<noteq> found \<and>
            m \<in> set allMoviesData \<and> (\<exists>g. genre found = Some g \<and> sharesGenre (firstGenre g) m))
          (take 5 (shuffle ?c))"
      unfolding list_all_iff using Some by blast
    have len: "length (take 5 (shuffle ?c)) \<le> 5"
      by simp
    show ?thesis unfolding eq using len la by (rule conjI)
  qed
qed

theorem similarMovies_membership_witness:
  "(\<forall>xs::Movie list. mset (rev xs) = mset xs) \<and>
   similarMovies rev theRoom [se7en, theRoom, unrated] = [unrated, se7en] \<and>
   length (similarMovies rev theRoom [se7en, theRoom, unrated]) \<le> 5 \<and>
   list_all (\<lambda>m. movieId m \<noteq> movieId theRoom \<and> m \<noteq> theRoom \<and>
                 m \<in> set [se7en, theRoom, unrated] \<and>
                 (\<exists>g. genre theRoom = Some g \<and> sharesGenre (firstGenre g) m))
     (similarMovies rev theRoom [se7en, theRoom, unrated])"
proof -
  have h: "\<And>xs::Movie list. mset (rev xs) = mset xs" by simp
  have e: "similarMovies rev theRoom [se7en, theRoom, unrated] = [unrated, se7en]"
    by code_simp
  show ?thesis
    using e similarMovies_membership[of rev theRoom "[se7en, theRoom, unrated]", OF h] by simp
qed

end
